theory Spec2Isabelle
  imports Complex_Main
begin

section \<open>The record conversion of the extraction pipeline\<close>

text \<open>
  The flights notebook of \<^verbatim>\<open>lab-31-tfdv-structured-data\<close> turns every BigQuery row into a
  \<^verbatim>\<open>tf.train.Example\<close> before TensorFlow Data Validation sees it:
  \<^verbatim>\<open>
  def row_to_example(instance, type_map):
      feature = {}
      for key, value in instance.items():
          data_type = type_map[key]
          if value is None:
              feature[key] = tf.train.Feature()
          elif data_type == 'INTEGER':
              feature[key] = tf.train.Feature(
                  int64_list=tf.train.Int64List(value=[value]))
          elif data_type == 'FLOAT':
              feature[key] = tf.train.Feature(
                  float_list=tf.train.FloatList(value=[value]))
          else:
              feature[key] = tf.train.Feature(
                  bytes_list=tf.train.BytesList(value=[tf.compat.as_bytes(value)]))
      return tf.train.Example(features=tf.train.Features(feature=feature))
  \<close>
  A Python value is \<open>'v option\<close>: \<open>None\<close> is Python's \<open>None\<close>, \<open>Some v\<close> any other
  object. A raised exception is the \<open>Inl\<close> of a sum.
\<close>

datatype error = KeyError string | TypeError | ValueError | OverflowError

text \<open>
  \<^verbatim>\<open>tf.train.Feature\<close> is a protocol buffer with one optional member out of three lists;
  \<^verbatim>\<open>tf.train.Feature()\<close> sets none of them.
\<close>

datatype 'v Feature =
    Feature_empty
  | int64_list "'v list"
  | float_list "'v list"
  | bytes_list "'v list"

datatype 'v Example = Example (features: "string \<rightharpoonup> 'v Feature")

text \<open>
  The TensorFlow calls are not code of the repository, so they are parameters. Each
  takes the one Python value the source hands it and either raises or gives the element
  that the list then holds: \<open>int64_value\<close> is the element check of
  \<^verbatim>\<open>tf.train.Int64List(value=[v])\<close>, \<open>float_value\<close> that of
  \<^verbatim>\<open>tf.train.FloatList(value=[v])\<close>, and \<open>as_bytes\<close> is \<^verbatim>\<open>tf.compat.as_bytes(v)\<close>.
\<close>

record 'v tf_train =
  int64_value :: "'v \<Rightarrow> error + 'v"
  float_value :: "'v \<Rightarrow> error + 'v"
  as_bytes :: "'v \<Rightarrow> error + 'v"

text \<open>The \<^verbatim>\<open>if / elif / else\<close> chain of the loop body, for a looked-up \<open>data_type\<close>.\<close>

definition to_feature :: "'v tf_train \<Rightarrow> string \<Rightarrow> 'v option \<Rightarrow> error + 'v Feature" where
  "to_feature tf data_type v =
     (case v of
        None \<Rightarrow> Inr Feature_empty
      | Some x \<Rightarrow>
          if data_type = ''INTEGER'' then
            (case int64_value tf x of Inl e \<Rightarrow> Inl e | Inr i \<Rightarrow> Inr (int64_list [i]))
          else if data_type = ''FLOAT'' then
            (case float_value tf x of Inl e \<Rightarrow> Inl e | Inr f \<Rightarrow> Inr (float_list [f]))
          else
            (case as_bytes tf x of Inl e \<Rightarrow> Inl e | Inr b \<Rightarrow> Inr (bytes_list [b])))"

text \<open>
  One pass of the loop body: \<^verbatim>\<open>type_map[key]\<close> is evaluated first and raises
  \<^verbatim>\<open>KeyError\<close> for a key the dictionary lacks, whatever the value is.
\<close>

definition item_feature ::
  "'v tf_train \<Rightarrow> (string \<rightharpoonup> string) \<Rightarrow> string \<Rightarrow> 'v option \<Rightarrow> error + 'v Feature" where
  "item_feature tf type_map key v =
     (case type_map key of
        None \<Rightarrow> Inl (KeyError key)
      | Some data_type \<Rightarrow> to_feature tf data_type v)"

text \<open>
  The loop over \<^verbatim>\<open>instance.items()\<close>, threading the dictionary \<open>feature\<close>. The first
  exception ends the call.
\<close>

fun row_loop ::
  "'v tf_train \<Rightarrow> (string \<rightharpoonup> string) \<Rightarrow> (string \<times> 'v option) list \<Rightarrow>
     (string \<rightharpoonup> 'v Feature) \<Rightarrow> error + (string \<rightharpoonup> 'v Feature)" where
  "row_loop tf type_map [] feature = Inr feature"
| "row_loop tf type_map ((key, v) # items) feature =
     (case item_feature tf type_map key v of
        Inl e \<Rightarrow> Inl e
      | Inr f \<Rightarrow> row_loop tf type_map items (feature(key \<mapsto> f)))"

text \<open>
  \<open>instance\<close> is the list \<^verbatim>\<open>instance.items()\<close> of the row, in the dictionary's iteration
  order; its keys are distinct, since they are those of a dictionary.
\<close>

definition row_to_example ::
  "'v tf_train \<Rightarrow> (string \<times> 'v option) list \<Rightarrow> (string \<rightharpoonup> string) \<Rightarrow> error + 'v Example" where
  "row_to_example tf instance type_map =
     (case row_loop tf type_map instance Map.empty of
        Inl e \<Rightarrow> Inl e
      | Inr feature \<Rightarrow> Inr (Example feature))"

text \<open>
  Concrete Python values for the evaluated examples: an integer, a float (a double,
  given by its value), a text, and \<open>PyFloat32 r\<close>, the float that an element of a
  \<^verbatim>\<open>FloatList\<close> holds for the number \<open>r\<close>: \<open>r\<close> as a double, rounded to single precision
  and infinite beyond its range. The rounding is not computed; the constructor names
  its result.
\<close>

datatype pyvalue = PyInt int | PyFloat real | PyFloat32 real | PyStr string

text \<open>
  The element checks for these values, as the libraries document them. An \<^verbatim>\<open>int64\<close>
  element must be an integer, within 64 bits. A \<^verbatim>\<open>float\<close> element must be a number: it
  is converted to a double, which raises \<^verbatim>\<open>OverflowError\<close> for an integer that no double
  holds (one that rounds to \<open>2 ^ 1024\<close> in magnitude), and is stored in single precision.
  \<^verbatim>\<open>as_bytes\<close> takes text only.
\<close>

definition py_tf :: "pyvalue tf_train" where
  "py_tf =
     \<lparr> int64_value = (\<lambda>x. case x of
          PyInt i \<Rightarrow> if - (2 ^ 63) \<le> i \<and> i < 2 ^ 63 then Inr (PyInt i) else Inl ValueError
        | _ \<Rightarrow> Inl TypeError),
       float_value = (\<lambda>x. case x of
          PyInt i \<Rightarrow>
            if 2 ^ 1024 - 2 ^ 970 \<le> \<bar>i\<bar> then Inl OverflowError
            else Inr (PyFloat32 (of_int i))
        | PyFloat r \<Rightarrow> Inr (PyFloat32 r)
        | PyFloat32 r \<Rightarrow> Inr (PyFloat32 r)
        | PyStr s \<Rightarrow> Inl TypeError),
       as_bytes = (\<lambda>x. case x of PyStr s \<Rightarrow> Inr (PyStr s) | _ \<Rightarrow> Inl TypeError) \<rparr>"

section \<open>The validation engine of the specification\<close>

text \<open>
  Modelled from the spec: the Validator and the data it reads (sections 3, 4.3, 4.4 and 9
  of the specification). The notebooks only call it, as
  \<^verbatim>\<open>tfdv.validate_statistics(eval_stats, schema, environment='SERVING')\<close>, after
  \<^verbatim>\<open>schema.default_environment.append('SERVING')\<close> and
  \<^verbatim>\<open>tfdv.get_feature(schema, 'Cover_Type').not_in_environment.append('SERVING')\<close>; the
  validating code itself is that of the library and is in no file of the repository.
  Numbers are real numbers. A mapping whose order is irrelevant is an association list.
\<close>

text \<open>Modelled from the spec: the \<open>kind\<close> of a feature.\<close>

datatype feature_kind = NUMERIC | CATEGORICAL_STRING | CATEGORICAL_INT

text \<open>
  Modelled from the spec: a value of a CATEGORICAL feature, text for CATEGORICAL_STRING and
  an integer for CATEGORICAL_INT.
\<close>

datatype cat_value = StringValue string | IntValue int

text \<open>
  Modelled from the spec: FeatureStatistics. The fields that depend on the kind: for
  NUMERIC min, max, mean, stddev and the histogram buckets \<open>(lower, upper, count)\<close>; for
  CATEGORICAL the frequency of every distinct value and the rank list.
\<close>

datatype distribution =
    Numeric real real real real "(real \<times> real \<times> nat) list"
  | Categorical "(cat_value \<times> nat) list" "cat_value list"

record FeatureStatistics =
  name :: string
  kind :: feature_kind
  count :: nat
  missing_count :: nat
  distribution :: distribution

text \<open>Modelled from the spec: DatasetStatistics, the statistics keyed by feature name.\<close>

record DatasetStatistics =
  feature_statistics :: "FeatureStatistics list"
  total_record_count :: nat

text \<open>
  Modelled from the spec: the domain constraint of a schema entry. For CATEGORICAL the
  allowed values, with \<open>min_domain_mass\<close> when the set is not meant to be exhaustive; for
  NUMERIC the range \<open>[min, max]\<close>.
\<close>

datatype domain_constraint =
    NoDomain
  | CategoricalDomain "cat_value list" "real option"
  | NumericDomain real real

record SchemaEntry =
  entry_name :: string
  entry_kind :: feature_kind
  min_presence_fraction :: real
  domain_constraint :: domain_constraint
  drift_threshold :: "real option"
  excluded_environments :: "string list"

text \<open>Modelled from the spec: Schema, its entries in declared order.\<close>

record Schema =
  entries :: "SchemaEntry list"
  environments :: "string list"

text \<open>
  Modelled from the spec: Anomaly. The six kinds are those of section 3 in their declared
  order; \<open>UNEXPECTED_FEATURE\<close> is the finding of step 2 of section 4.4, which section 3
  does not list.
\<close>

datatype anomaly_kind =
    MISSING_FEATURE
  | UNEXPECTED_STRING_VALUES
  | OUT_OF_RANGE
  | PRESENCE_BELOW_THRESHOLD
  | DOMAIN_MASS_BELOW_THRESHOLD
  | DISTRIBUTION_DRIFT
  | UNEXPECTED_FEATURE

text \<open>Modelled from the spec: the severity of an anomaly.\<close>

datatype severity = ERROR | WARNING

text \<open>
  Modelled from the spec: what the \<open>short_description\<close> of an anomaly reports (the offending
  values, the out-of-range extent, a fraction or a distance), kept as data and not as text.
\<close>

datatype description =
    NoDetail
  | OffendingValues "cat_value list"
  | Extent real
  | Fraction real
  | Distance real

text \<open>Modelled from the spec: Anomaly, one finding of the report.\<close>

record Anomaly =
  feature_name :: string
  anomaly_kind :: anomaly_kind
  short_description :: description
  severity :: severity

subsection \<open>The schema operations that tag environments\<close>

text \<open>Modelled from the spec: the failures of the schema operations (section 7).\<close>

datatype schema_error =
    UnknownFeatureError
  | UnknownEnvironmentError
  | KindMismatchError
  | InvalidArgumentError
  | MalformedSchemaError

text \<open>Modelled from the spec: \<open>declare_environment(name)\<close>; the environments are a set.\<close>

definition declare_environment :: "string \<Rightarrow> Schema \<Rightarrow> schema_error + Schema" where
  "declare_environment env schema =
     Inr (if env \<in> set (environments schema) then schema
          else schema\<lparr>environments := environments schema @ [env]\<rparr>)"

text \<open>
  Modelled from the spec: \<open>exclude_feature_from_environment(feature, environment)\<close>, which
  fails with \<open>UnknownEnvironmentError\<close> if the environment was not declared and never
  ignores an invalid target.
\<close>

definition exclude_feature_from_environment ::
  "string \<Rightarrow> string \<Rightarrow> Schema \<Rightarrow> schema_error + Schema" where
  "exclude_feature_from_environment f env schema =
     (if env \<notin> set (environments schema) then Inl UnknownEnvironmentError
      else if f \<notin> entry_name ` set (entries schema) then Inl UnknownFeatureError
      else Inr (schema\<lparr>entries :=
             map (\<lambda>e. if entry_name e = f \<and> env \<notin> set (excluded_environments e)
                        then e\<lparr>excluded_environments := excluded_environments e @ [env]\<rparr>
                        else e)
                 (entries schema)\<rparr>))"

subsection \<open>The checks of one feature\<close>

text \<open>Modelled from the spec: the Anomaly with the four fields given.\<close>

definition anomaly :: "string \<Rightarrow> anomaly_kind \<Rightarrow> description \<Rightarrow> severity \<Rightarrow> Anomaly" where
  "anomaly f k d s = \<lparr>feature_name = f, anomaly_kind = k, short_description = d, severity = s\<rparr>"

text \<open>
  Modelled from the spec: the statistics of one feature name in a DatasetStatistics, whose
  entries are keyed by name.
\<close>

definition lookup_statistics :: "DatasetStatistics \<Rightarrow> string \<Rightarrow> FeatureStatistics option" where
  "lookup_statistics stats f = find (\<lambda>s. name s = f) (feature_statistics stats)"

text \<open>
  Modelled from the spec: a feature is absent from the statistics when
  \<open>missing_count == total_record_count\<close>. A feature with no entry at all is absent too
  (the data model marks an absent feature rather than omitting it).
\<close>

definition absent :: "DatasetStatistics \<Rightarrow> string \<Rightarrow> bool" where
  "absent stats f =
     (case lookup_statistics stats f of
        None \<Rightarrow> True
      | Some s \<Rightarrow> missing_count s = total_record_count stats)"

text \<open>
  Modelled from the spec: the feature is excluded from the environment of the call when
  its \<open>excluded_environments\<close> contain it; a call without an environment excludes nothing.
\<close>

definition excluded :: "SchemaEntry \<Rightarrow> string option \<Rightarrow> bool" where
  "excluded e environment =
     (case environment of None \<Rightarrow> False | Some env \<Rightarrow> env \<in> set (excluded_environments e))"

text \<open>Modelled from the spec: step 1, MISSING_FEATURE.\<close>

definition check_missing :: "DatasetStatistics \<Rightarrow> SchemaEntry \<Rightarrow> Anomaly list" where
  "check_missing stats e =
     (if absent stats (entry_name e)
      then [anomaly (entry_name e) MISSING_FEATURE NoDetail ERROR] else [])"

text \<open>
  Modelled from the spec: step 3, the presence check
  \<open>1 - missing_count/total_record_count < min_presence_fraction\<close>. The quotient has no
  value for an empty dataset; nothing is reported then.
\<close>

definition check_presence ::
  "DatasetStatistics \<Rightarrow> SchemaEntry \<Rightarrow> FeatureStatistics \<Rightarrow> Anomaly list" where
  "check_presence stats e s =
     (if total_record_count stats = 0 then []
      else
        let presence = 1 - real (missing_count s) / real (total_record_count stats)
        in if presence < min_presence_fraction e
           then [anomaly (entry_name e) PRESENCE_BELOW_THRESHOLD (Fraction presence) ERROR]
           else [])"

text \<open>Modelled from the spec: the observed values that are not in the allowed domain.\<close>

definition offending :: "cat_value list \<Rightarrow> (cat_value \<times> nat) list \<Rightarrow> (cat_value \<times> nat) list" where
  "offending allowed freq = filter (\<lambda>(v, c). v \<notin> set allowed) freq"

text \<open>Modelled from the spec: observed values ordered by descending frequency.\<close>

definition by_descending_frequency :: "(cat_value \<times> nat) list \<Rightarrow> (cat_value \<times> nat) list" where
  "by_descending_frequency freq = sort_key (\<lambda>(v, c). - int c) freq"

text \<open>
  Modelled from the spec: step 4, the CATEGORICAL domain check. \<open>unexpected\<close> is the sum of
  the frequencies of the observed values outside the allowed domain. Without
  \<open>min_domain_mass\<close>: if the domain is not empty and an unexpected value exists, one
  UNEXPECTED_STRING_VALUES naming up to 5 of them by descending frequency. With
  \<open>min_domain_mass\<close> instead: DOMAIN_MASS_BELOW_THRESHOLD when
  \<open>(count - missing - unexpected) / count < min_domain_mass\<close> (nothing for a count of 0,
  where the quotient has no value).
\<close>

definition check_categorical :: "SchemaEntry \<Rightarrow> FeatureStatistics \<Rightarrow> Anomaly list" where
  "check_categorical e s =
     (case (domain_constraint e, distribution s) of
        (CategoricalDomain allowed mass, Categorical freq ranks) \<Rightarrow>
          (let bad = offending allowed freq;
               unexpected = sum_list (map snd bad)
           in case mass of
                None \<Rightarrow>
                  if allowed \<noteq> [] \<and> bad \<noteq> []
                  then [anomaly (entry_name e) UNEXPECTED_STRING_VALUES
                          (OffendingValues (map fst (take 5 (by_descending_frequency bad)))) ERROR]
                  else []
              | Some m \<Rightarrow>
                  if count s = 0 then []
                  else
                    let inside = (real (count s) - real (missing_count s) - real unexpected)
                                   / real (count s)
                    in if inside < m
                       then [anomaly (entry_name e) DOMAIN_MASS_BELOW_THRESHOLD (Fraction inside) ERROR]
                       else [])
      | _ \<Rightarrow> [])"

text \<open>
  Modelled from the spec: step 5, the NUMERIC range check, reporting the extent by which
  the observed values leave the declared range (the larger one when both ends do).
\<close>

definition check_range :: "SchemaEntry \<Rightarrow> FeatureStatistics \<Rightarrow> Anomaly list" where
  "check_range e s =
     (case (domain_constraint e, distribution s) of
        (NumericDomain lo hi, Numeric mn mx mean_v stddev_v buckets) \<Rightarrow>
          if mn < lo \<or> hi < mx
          then [anomaly (entry_name e) OUT_OF_RANGE (Extent (max (lo - mn) (mx - hi))) ERROR]
          else []
      | _ \<Rightarrow> [])"

text \<open>
  Modelled from the spec: a point of a feature's distribution, an observed value of the
  frequency mapping or a histogram bucket, identified by its bounds.
\<close>

datatype bin = ValueBin cat_value | BucketBin real real

text \<open>Modelled from the spec: the frequency or histogram distribution, as counts per point.\<close>

definition bins :: "distribution \<Rightarrow> (bin \<times> nat) list" where
  "bins d =
     (case d of
        Numeric mn mx mean_v stddev_v buckets \<Rightarrow> map (\<lambda>(lo, hi, c). (BucketBin lo hi, c)) buckets
      | Categorical freq ranks \<Rightarrow> map (\<lambda>(v, c). (ValueBin v, c)) freq)"

text \<open>
  Modelled from the spec: the normalized distribution, the share of one point in the
  total; 0 in a distribution without observations, where the quotient has no value.
\<close>

definition share :: "(bin \<times> nat) list \<Rightarrow> bin \<Rightarrow> real" where
  "share bs b =
     (let total = sum_list (map snd bs);
          here = sum_list (map snd (filter (\<lambda>(b', c). b' = b) bs))
      in if total = 0 then 0 else real here / real total)"

text \<open>
  Modelled from the spec: the L-infinity distance between two normalized distributions,
  the largest difference of shares over the points of both.
\<close>

definition linf_distance :: "distribution \<Rightarrow> distribution \<Rightarrow> real" where
  "linf_distance d d' =
     (let bs = bins d; bs' = bins d'
      in fold max (map (\<lambda>b. \<bar>share bs b - share bs' b\<bar>) (map fst bs @ map fst bs')) 0)"

text \<open>
  Modelled from the spec: step 6, the drift check, only with a \<open>drift_threshold\<close> on the
  feature and previous statistics supplied: DISTRIBUTION_DRIFT (WARNING) if the distance
  exceeds the threshold.
\<close>

definition check_drift ::
  "SchemaEntry \<Rightarrow> FeatureStatistics \<Rightarrow> DatasetStatistics option \<Rightarrow> Anomaly list" where
  "check_drift e s previous_stats =
     (case (drift_threshold e, previous_stats) of
        (Some threshold, Some previous) \<Rightarrow>
          (case lookup_statistics previous (entry_name e) of
             None \<Rightarrow> []
           | Some p \<Rightarrow>
               let d = linf_distance (distribution s) (distribution p)
               in if threshold < d
                  then [anomaly (entry_name e) DISTRIBUTION_DRIFT (Distance d) WARNING]
                  else [])
      | _ \<Rightarrow> [])"

text \<open>
  Modelled from the spec: the checks of one declared feature, in the order of the steps.
  Section 9: exclusion from the environment suppresses all of them. Steps 3 to 6 read the
  statistics of the feature and do not apply where the statistics hold no entry for it.
\<close>

definition check_feature ::
  "DatasetStatistics \<Rightarrow> string option \<Rightarrow> DatasetStatistics option \<Rightarrow> SchemaEntry \<Rightarrow> Anomaly list" where
  "check_feature stats environment previous_stats e =
     (if excluded e environment then []
      else
        check_missing stats e @
        (case lookup_statistics stats (entry_name e) of
           None \<Rightarrow> []
         | Some s \<Rightarrow>
             check_presence stats e s @ check_categorical e s @ check_range e s @
             check_drift e s previous_stats))"

text \<open>
  Modelled from the spec: step 2, a WARNING for every feature of the statistics that the
  schema does not declare.
\<close>

definition check_unexpected :: "DatasetStatistics \<Rightarrow> Schema \<Rightarrow> Anomaly list" where
  "check_unexpected stats schema =
     map (\<lambda>s. anomaly (name s) UNEXPECTED_FEATURE NoDetail WARNING)
         (filter (\<lambda>s. name s \<notin> entry_name ` set (entries schema)) (feature_statistics stats))"

text \<open>
  Modelled from the spec: \<open>validate(stats, schema, environment, previous_stats)\<close>. The
  report follows the declared order of the schema; the findings about undeclared features
  come after those of the declared ones.
\<close>

definition validate ::
  "DatasetStatistics \<Rightarrow> Schema \<Rightarrow> string option \<Rightarrow> DatasetStatistics option \<Rightarrow> Anomaly list" where
  "validate stats schema environment previous_stats =
     concat (map (check_feature stats environment previous_stats) (entries schema)) @
     check_unexpected stats schema"

section \<open>Scenario C of the specification\<close>

text \<open>
  Modelled from the spec: Scenario C. A schema that declares a numeric feature \<open>x\<close> and the
  feature \<open>label\<close>, before any environment is declared.
\<close>

definition scenario_C_base :: Schema where
  "scenario_C_base =
     \<lparr> entries =
         [ \<lparr> entry_name = ''x'', entry_kind = NUMERIC, min_presence_fraction = 1,
             domain_constraint = NumericDomain 0 10, drift_threshold = None,
             excluded_environments = [] \<rparr>,
           \<lparr> entry_name = ''label'', entry_kind = CATEGORICAL_INT, min_presence_fraction = 0,
             domain_constraint = CategoricalDomain [IntValue 0, IntValue 1] None,
             drift_threshold = None, excluded_environments = [] \<rparr> ],
       environments = [] \<rparr>"

text \<open>
  Modelled from the spec: Scenario C. The schema after \<open>declare_environment\<close> of TRAINING
  and SERVING and \<open>exclude_feature_from_environment\<close> of \<open>label\<close> from SERVING.
\<close>

definition scenario_C_schema :: Schema where
  "scenario_C_schema =
     \<lparr> entries =
         [ \<lparr> entry_name = ''x'', entry_kind = NUMERIC, min_presence_fraction = 1,
             domain_constraint = NumericDomain 0 10, drift_threshold = None,
             excluded_environments = [] \<rparr>,
           \<lparr> entry_name = ''label'', entry_kind = CATEGORICAL_INT, min_presence_fraction = 0,
             domain_constraint = CategoricalDomain [IntValue 0, IntValue 1] None,
             drift_threshold = None, excluded_environments = [''SERVING''] \<rparr> ],
       environments = [''TRAINING'', ''SERVING''] \<rparr>"

text \<open>
  Modelled from the spec: Scenario C. The statistics of a serving batch of four records in
  which \<open>label\<close> is entirely absent: \<open>missing_count == total_record_count\<close>.
\<close>

definition scenario_C_stats :: DatasetStatistics where
  "scenario_C_stats =
     \<lparr> feature_statistics =
         [ \<lparr> name = ''x'', kind = NUMERIC, count = 4, missing_count = 0,
             distribution = Numeric 1 9 5 3 [(1, 5, 2), (5, 9, 2)] \<rparr>,
           \<lparr> name = ''label'', kind = CATEGORICAL_INT, count = 4, missing_count = 4,
             distribution = Categorical [] [] \<rparr> ],
       total_record_count = 4 \<rparr>"


section \<open>Properties of the record conversion\<close>

lemma to_feature_None: "to_feature tf data_type None = Inr Feature_empty"
  by (simp add: to_feature_def)

lemma row_loop_failure_origin:
  assumes "row_loop tf type_map items feature = Inl e"
  shows "\<exists>k v. (k, v) \<in> set items \<and> item_feature tf type_map k v = Inl e"
  using assms
proof (induction items arbitrary: feature)
  case Nil
  then show ?case by simp
next
  case (Cons item items)
  obtain key v where item: "item = (key, v)" by (cases item)
  show ?case
  proof (cases "item_feature tf type_map key v")
    case (Inl e')
    with Cons.prems item have "e' = e" by simp
    with Inl item show ?thesis by auto
  next
    case (Inr f)
    with Cons.prems item have "row_loop tf type_map items (feature(key \<mapsto> f)) = Inl e"
      by simp
    from Cons.IH [OF this] show ?thesis by auto
  qed
qed

lemma row_loop_keeps_earlier:
  assumes "row_loop tf type_map items feature = Inr m" and "k \<notin> fst ` set items"
  shows "m k = feature k"
  using assms
proof (induction items arbitrary: feature)
  case Nil
  then show ?case by simp
next
  case (Cons item items)
  obtain key v where item: "item = (key, v)" by (cases item)
  from Cons.prems item obtain f where
    f: "item_feature tf type_map key v = Inr f"
    and rest: "row_loop tf type_map items (feature(key \<mapsto> f)) = Inr m"
    by (auto split: sum.splits)
  from Cons.prems(2) item have "k \<noteq> key" and "k \<notin> fst ` set items" by auto
  with Cons.IH [OF rest] show ?case by simp
qed

lemma row_loop_result:
  assumes "row_loop tf type_map items feature = Inr m"
    and "distinct (map fst items)" and "(k, v) \<in> set items"
  shows "\<exists>f. m k = Some f \<and> item_feature tf type_map k v = Inr f"
  using assms
proof (induction items arbitrary: feature)
  case Nil
  then show ?case by simp
next
  case (Cons item items)
  obtain key w where item: "item = (key, w)" by (cases item)
  from Cons.prems(1) item obtain f where
    f: "item_feature tf type_map key w = Inr f"
    and rest: "row_loop tf type_map items (feature(key \<mapsto> f)) = Inr m"
    by (auto split: sum.splits)
  from Cons.prems(2) item have dist: "distinct (map fst items)" and fresh: "key \<notin> fst ` set items"
    by auto
  show ?case
  proof (cases "(k, v) = (key, w)")
    case True
    from row_loop_keeps_earlier [OF rest fresh] have "m key = Some f" by simp
    with True f show ?thesis by simp
  next
    case False
    with Cons.prems(3) item have "(k, v) \<in> set items" by auto
    from Cons.IH [OF rest dist this] show ?thesis .
  qed
qed

lemma row_to_example_Inr:
  "row_to_example tf instance type_map = Inr ex \<longleftrightarrow>
     row_loop tf type_map instance Map.empty = Inr (features ex)"
  by (cases ex) (auto simp: row_to_example_def split: sum.splits)

lemma row_to_example_Inl:
  "row_to_example tf instance type_map = Inl e \<longleftrightarrow>
     row_loop tf type_map instance Map.empty = Inl e"
  by (auto simp: row_to_example_def split: sum.splits)

lemma item_feature_None_value:
  "item_feature tf type_map k None =
     (case type_map k of None \<Rightarrow> Inl (KeyError k) | Some t \<Rightarrow> Inr Feature_empty)"
  by (simp add: item_feature_def to_feature_None split: option.splits)

subsection \<open>A value that is \<open>None\<close>\<close>

text \<open>
  C10, as the source has it. The claim as stated fails where the type map has no entry
  for the key: \<^verbatim>\<open>type_map[key]\<close> stands before the test \<^verbatim>\<open>value is None\<close>, so a row whose
  only value is \<open>None\<close> raises \<^verbatim>\<open>KeyError\<close>.
\<close>

theorem none_value_untyped_key_raises:
  "row_to_example py_tf [(''airline'', None)] Map.empty = Inl (KeyError ''airline'')"
  by (simp add: row_to_example_def item_feature_def)

text \<open>
  C10, amended: for every row, every type map and every behaviour of the TensorFlow
  calls, a \<open>None\<close> value whose key has an entry in the type map becomes the empty
  \<open>Feature\<close>, whatever type the entry declares; a call that returns holds the empty
  \<open>Feature\<close> under every key whose value is \<open>None\<close>; and an exception of the call is that of
  one item of the row which, when its value is \<open>None\<close>, is the \<^verbatim>\<open>KeyError\<close> of its missing
  type. The result does not depend on \<open>tf\<close>: no conversion is called on \<open>None\<close>.
\<close>

theorem none_value_gives_empty_feature:
  assumes "distinct (map fst instance)"
  shows "(\<forall>key data_type. type_map key = Some data_type \<longrightarrow>
            item_feature tf type_map key None = Inr Feature_empty)
       \<and> (\<forall>ex key. row_to_example tf instance type_map = Inr ex \<and> (key, None) \<in> set instance \<longrightarrow>
            features ex key = Some Feature_empty)
       \<and> (\<forall>e. row_to_example tf instance type_map = Inl e \<longrightarrow>
            (\<exists>k v. (k, v) \<in> set instance \<and> item_feature tf type_map k v = Inl e \<and>
               (v = None \<longrightarrow> type_map k = None \<and> e = KeyError k)))"
proof (intro conjI allI impI)
  fix key data_type
  assume "type_map key = Some data_type"
  then show "item_feature tf type_map key None = Inr Feature_empty"
    by (simp add: item_feature_None_value)
next
  fix ex key
  assume a: "row_to_example tf instance type_map = Inr ex \<and> (key, None) \<in> set instance"
  then have loop: "row_loop tf type_map instance Map.empty = Inr (features ex)"
    by (simp add: row_to_example_Inr)
  from row_loop_result [OF loop assms] a obtain f where
    f: "features ex key = Some f" and conv: "item_feature tf type_map key None = Inr f"
    by blast
  from conv have "f = Feature_empty"
    by (auto simp: item_feature_None_value split: option.splits)
  with f show "features ex key = Some Feature_empty" by simp
next
  fix e
  assume "row_to_example tf instance type_map = Inl e"
  then have "row_loop tf type_map instance Map.empty = Inl e"
    by (simp add: row_to_example_Inl)
  from row_loop_failure_origin [OF this] obtain k v where
    kv: "(k, v) \<in> set instance" and fail: "item_feature tf type_map k v = Inl e"
    by blast
  have "v = None \<longrightarrow> type_map k = None \<and> e = KeyError k"
    using fail by (auto simp: item_feature_None_value split: option.splits)
  with kv fail show "\<exists>k v. (k, v) \<in> set instance \<and> item_feature tf type_map k v = Inl e \<and>
      (v = None \<longrightarrow> type_map k = None \<and> e = KeyError k)"
    by blast
qed

theorem none_value_gives_empty_feature_witness:
  "distinct (map fst [(''airline'', None), (''flight_day'', Some (PyInt 3))])
   \<and> item_feature py_tf [''airline'' \<mapsto> ''STRING'', ''flight_day'' \<mapsto> ''INTEGER''] ''airline'' None
       = Inr Feature_empty
   \<and> (\<exists>ex. row_to_example py_tf [(''airline'', None), (''flight_day'', Some (PyInt 3))]
               [''airline'' \<mapsto> ''STRING'', ''flight_day'' \<mapsto> ''INTEGER''] = Inr ex
           \<and> features ex ''airline'' = Some Feature_empty
           \<and> features ex ''flight_day'' = Some (int64_list [PyInt 3]))"
proof -
  let ?I = "[(''airline'', None), (''flight_day'', Some (PyInt 3))]"
  let ?T = "[''airline'' \<mapsto> ''STRING'', ''flight_day'' \<mapsto> ''INTEGER'']"
  have d: "distinct (map fst ?I)" by simp
  note inst = none_value_gives_empty_feature [OF d, of ?T py_tf]
  have typed: "?T ''airline'' = Some ''STRING''" by simp
  from inst typed have one: "item_feature py_tf ?T ''airline'' None = Inr Feature_empty"
    by blast
  obtain ex where ex: "row_to_example py_tf ?I ?T = Inr ex"
    and day: "features ex ''flight_day'' = Some (int64_list [PyInt 3])"
    by (simp add: row_to_example_def item_feature_def to_feature_def py_tf_def)
  have "(''airline'', None) \<in> set ?I" by simp
  with inst ex have "features ex ''airline'' = Some Feature_empty" by blast
  with d one ex day show ?thesis by blast
qed

section \<open>Properties of the validation engine\<close>

lemma scenario_C_schema_built:
  "(case declare_environment ''TRAINING'' scenario_C_base of
      Inl err \<Rightarrow> Inl err
    | Inr s1 \<Rightarrow>
        (case declare_environment ''SERVING'' s1 of
           Inl err \<Rightarrow> Inl err
         | Inr s2 \<Rightarrow> exclude_feature_from_environment ''label'' ''SERVING'' s2))
   = Inr scenario_C_schema"
  by (simp add: declare_environment_def exclude_feature_from_environment_def
      scenario_C_base_def scenario_C_schema_def)

lemma check_missing_names:
  "a \<in> set (check_missing stats e) \<Longrightarrow> feature_name a = entry_name e"
  by (auto simp: check_missing_def anomaly_def split: if_splits)

lemma check_presence_names:
  "a \<in> set (check_presence stats e s) \<Longrightarrow>
     feature_name a = entry_name e \<and> anomaly_kind a = PRESENCE_BELOW_THRESHOLD"
  by (auto simp: check_presence_def anomaly_def Let_def split: if_splits)

lemma check_categorical_names:
  "a \<in> set (check_categorical e s) \<Longrightarrow>
     feature_name a = entry_name e \<and>
     (anomaly_kind a = UNEXPECTED_STRING_VALUES \<or> anomaly_kind a = DOMAIN_MASS_BELOW_THRESHOLD)"
  by (auto simp: check_categorical_def anomaly_def Let_def
      split: if_splits domain_constraint.splits distribution.splits option.splits)

lemma check_range_names:
  "a \<in> set (check_range e s) \<Longrightarrow> feature_name a = entry_name e \<and> anomaly_kind a = OUT_OF_RANGE"
  by (auto simp: check_range_def anomaly_def
      split: if_splits domain_constraint.splits distribution.splits)

lemma check_drift_names:
  "a \<in> set (check_drift e s previous_stats) \<Longrightarrow>
     feature_name a = entry_name e \<and> anomaly_kind a = DISTRIBUTION_DRIFT"
  by (auto simp: check_drift_def anomaly_def Let_def split: if_splits option.splits)

lemma check_feature_names:
  "a \<in> set (check_feature stats environment previous_stats e) \<Longrightarrow>
     feature_name a = entry_name e"
  by (auto simp: check_feature_def split: if_splits option.splits
      dest: check_missing_names check_presence_names check_categorical_names
        check_range_names check_drift_names)

lemma check_unexpected_names:
  "a \<in> set (check_unexpected stats schema) \<Longrightarrow>
     feature_name a \<notin> entry_name ` set (entries schema)"
  by (auto simp: check_unexpected_def anomaly_def)

lemma filter_concat_of_key:
  assumes "distinct (map key xs)" and "x \<in> set xs"
    and "\<And>y a. y \<in> set xs \<Longrightarrow> a \<in> set (g y) \<Longrightarrow> tag a = key y"
  shows "filter (\<lambda>a. tag a = key x) (concat (map g xs)) = g x"
  using assms
proof (induction xs)
  case Nil
  then show ?case by simp
next
  case (Cons y ys)
  have tags: "\<And>z a. z \<in> set ys \<Longrightarrow> a \<in> set (g z) \<Longrightarrow> tag a = key z"
    using Cons.prems(3) by simp
  show ?case
  proof (cases "x = y")
    case True
    have here: "filter (\<lambda>a. tag a = key x) (g y) = g y"
      using Cons.prems(3) [of y] True by (simp add: filter_id_conv)
    have "key y \<notin> key ` set ys" using Cons.prems(1) by simp
    then have "\<And>a. a \<in> set (concat (map g ys)) \<Longrightarrow> tag a \<noteq> key y"
      using tags by (auto simp: image_iff)
    then have "filter (\<lambda>a. tag a = key x) (concat (map g ys)) = []"
      using True by (simp add: filter_empty_conv)
    with here True show ?thesis by simp
  next
    case False
    with Cons.prems(2) have x: "x \<in> set ys" by simp
    from Cons.prems(1) have d: "distinct (map key ys)" and "key y \<notin> key ` set ys" by simp_all
    with x have "key x \<noteq> key y" by (auto simp: image_iff)
    then have "filter (\<lambda>a. tag a = key x) (g y) = []"
      using Cons.prems(3) [of y] by (auto simp: filter_empty_conv)
    with Cons.IH [OF d x tags] show ?thesis by simp
  qed
qed

lemma validate_of_feature:
  assumes "distinct (map entry_name (entries schema))" and "e \<in> set (entries schema)"
  shows "filter (\<lambda>a. feature_name a = entry_name e) (validate stats schema environment previous_stats)
           = check_feature stats environment previous_stats e"
proof -
  have declared: "filter (\<lambda>a. feature_name a = entry_name e)
      (concat (map (check_feature stats environment previous_stats) (entries schema)))
        = check_feature stats environment previous_stats e"
    using assms by (rule filter_concat_of_key) (rule check_feature_names)
  have "\<And>a. a \<in> set (check_unexpected stats schema) \<Longrightarrow> feature_name a \<noteq> entry_name e"
    using assms(2) by (auto dest: check_unexpected_names)
  then have "filter (\<lambda>a. feature_name a = entry_name e) (check_unexpected stats schema) = []"
    by (simp add: filter_empty_conv)
  with declared show ?thesis by (simp add: validate_def)
qed

lemma check_feature_missing_kind:
  assumes "\<not> excluded e environment" and "absent stats (entry_name e)"
  shows "filter (\<lambda>a. anomaly_kind a = MISSING_FEATURE)
           (check_feature stats environment previous_stats e)
         = [anomaly (entry_name e) MISSING_FEATURE NoDetail ERROR]"
proof -
  have first: "check_missing stats e = [anomaly (entry_name e) MISSING_FEATURE NoDetail ERROR]"
    using assms(2) by (simp add: check_missing_def)
  have rest: "filter (\<lambda>a. anomaly_kind a = MISSING_FEATURE)
      (case lookup_statistics stats (entry_name e) of
         None \<Rightarrow> []
       | Some s \<Rightarrow> check_presence stats e s @ check_categorical e s @ check_range e s @
           check_drift e s previous_stats) = []"
    by (auto simp: filter_empty_conv split: option.splits
        dest: check_presence_names check_categorical_names check_range_names check_drift_names)
  show ?thesis
    using assms(1) by (simp add: check_feature_def first rest) (simp add: anomaly_def)
qed

subsection \<open>Absent features and environments\<close>

text \<open>
  C1, for the validator modelled from the specification. For every schema with one entry
  per feature name, every statistics in which a declared feature is absent, every
  environment and every previous statistics: if the feature is not excluded from the
  environment, the report holds exactly one MISSING_FEATURE anomaly for it, of severity
  ERROR; if the feature is excluded from the environment, the report holds no anomaly for
  it at all. In Scenario C, validating for SERVING gives the empty report and validating
  for TRAINING gives the one MISSING_FEATURE anomaly.
\<close>

theorem absent_feature_reported_unless_excluded:
  assumes "distinct (map entry_name (entries schema))"
    and "e \<in> set (entries schema)"
    and "absent stats (entry_name e)"
  shows "(\<not> excluded e environment \<longrightarrow>
            filter (\<lambda>a. feature_name a = entry_name e \<and> anomaly_kind a = MISSING_FEATURE)
              (validate stats schema environment previous_stats)
            = [anomaly (entry_name e) MISSING_FEATURE NoDetail ERROR])
       \<and> (excluded e environment \<longrightarrow>
            filter (\<lambda>a. feature_name a = entry_name e)
              (validate stats schema environment previous_stats) = [])
       \<and> validate scenario_C_stats scenario_C_schema (Some ''SERVING'') None = []
       \<and> validate scenario_C_stats scenario_C_schema (Some ''TRAINING'') None
           = [anomaly ''label'' MISSING_FEATURE NoDetail ERROR]"
proof (intro conjI impI)
  assume free: "\<not> excluded e environment"
  have "filter (\<lambda>a. feature_name a = entry_name e \<and> anomaly_kind a = MISSING_FEATURE)
          (validate stats schema environment previous_stats)
        = filter (\<lambda>a. anomaly_kind a = MISSING_FEATURE)
            (filter (\<lambda>a. feature_name a = entry_name e)
              (validate stats schema environment previous_stats))"
    by (simp add: conj_commute)
  also have "\<dots> = filter (\<lambda>a. anomaly_kind a = MISSING_FEATURE)
      (check_feature stats environment previous_stats e)"
    by (simp only: validate_of_feature [OF assms(1,2)])
  also have "\<dots> = [anomaly (entry_name e) MISSING_FEATURE NoDetail ERROR]"
    by (rule check_feature_missing_kind [OF free assms(3)])
  finally show "filter (\<lambda>a. feature_name a = entry_name e \<and> anomaly_kind a = MISSING_FEATURE)
      (validate stats schema environment previous_stats)
        = [anomaly (entry_name e) MISSING_FEATURE NoDetail ERROR]" .
next
  assume "excluded e environment"
  then have "check_feature stats environment previous_stats e = []"
    by (simp add: check_feature_def)
  then show "filter (\<lambda>a. feature_name a = entry_name e)
      (validate stats schema environment previous_stats) = []"
    by (simp only: validate_of_feature [OF assms(1,2)])
next
  show "validate scenario_C_stats scenario_C_schema (Some ''SERVING'') None = []"
    by (simp add: validate_def check_feature_def check_unexpected_def excluded_def
        check_missing_def absent_def lookup_statistics_def check_presence_def
        check_categorical_def check_range_def check_drift_def offending_def
        scenario_C_stats_def scenario_C_schema_def)
next
  show "validate scenario_C_stats scenario_C_schema (Some ''TRAINING'') None
      = [anomaly ''label'' MISSING_FEATURE NoDetail ERROR]"
    by (simp add: validate_def check_feature_def check_unexpected_def excluded_def
        check_missing_def absent_def lookup_statistics_def check_presence_def
        check_categorical_def check_range_def check_drift_def offending_def
        scenario_C_stats_def scenario_C_schema_def)
qed

theorem absent_feature_reported_unless_excluded_witness:
  "distinct (map entry_name (entries scenario_C_schema))
   \<and> absent scenario_C_stats ''label''
   \<and> excluded (entries scenario_C_schema ! 1) (Some ''SERVING'')
   \<and> \<not> excluded (entries scenario_C_schema ! 1) (Some ''TRAINING'')
   \<and> filter (\<lambda>a. feature_name a = ''label'')
       (validate scenario_C_stats scenario_C_schema (Some ''SERVING'') None) = []
   \<and> filter (\<lambda>a. feature_name a = ''label'' \<and> anomaly_kind a = MISSING_FEATURE)
       (validate scenario_C_stats scenario_C_schema (Some ''TRAINING'') None)
       = [anomaly ''label'' MISSING_FEATURE NoDetail ERROR]"
proof -
  let ?e = "entries scenario_C_schema ! 1"
  have n: "entry_name ?e = ''label''" by (simp add: scenario_C_schema_def)
  have d: "distinct (map entry_name (entries scenario_C_schema))"
    by (simp add: scenario_C_schema_def)
  have m: "?e \<in> set (entries scenario_C_schema)" by (simp add: scenario_C_schema_def)
  have a: "absent scenario_C_stats (entry_name ?e)"
    by (simp add: absent_def lookup_statistics_def scenario_C_stats_def scenario_C_schema_def)
  have s: "excluded ?e (Some ''SERVING'')" by (simp add: excluded_def scenario_C_schema_def)
  have t: "\<not> excluded ?e (Some ''TRAINING'')" by (simp add: excluded_def scenario_C_schema_def)
  from absent_feature_reported_unless_excluded [OF d m a, of "Some ''SERVING''" None] s
  have serving: "filter (\<lambda>a. feature_name a = entry_name ?e)
      (validate scenario_C_stats scenario_C_schema (Some ''SERVING'') None) = []"
    by blast
  from absent_feature_reported_unless_excluded [OF d m a, of "Some ''TRAINING''" None] t
  have training: "filter (\<lambda>a. feature_name a = entry_name ?e \<and> anomaly_kind a = MISSING_FEATURE)
      (validate scenario_C_stats scenario_C_schema (Some ''TRAINING'') None)
        = [anomaly (entry_name ?e) MISSING_FEATURE NoDetail ERROR]"
    by blast
  from d a s t serving training show ?thesis unfolding n by blast
qed


end
